theory Spec2Isabelle
  imports Complex_Main "HOL-Library.Log_Nat"
begin

section \<open>JavaScript values\<close>

text \<open>
  The client (\<^verbatim>\<open>frontend/src/App.js\<close>) works on values that arrive through
  \<^verbatim>\<open>response.json()\<close>, so a feature is an arbitrary JavaScript value and every test the
  code makes on it (\<^verbatim>\<open>d && d.position && Array.isArray(...)\<close>, \<^verbatim>\<open>typeof d.xco2 === 'number'\<close>)
  is a case distinction on that value.

  A number is a finite value, one of the two infinities, or NaN, with the comparison rules
  of the language. A finite number is a real; the subtraction that \<^verbatim>\<open>createTrajectories\<close>
  performs on coordinates rounds its exact result to the nearest double, as the machine does.
\<close>

datatype jsnum = NaN | NegInf | Fin real | PosInf

datatype jsval =
    Undefined
  | Null
  | Bool bool
  | Number jsnum
  | String string
  | Array "jsval list"
  | Object "(string \<times> jsval) list"

text \<open>\<^verbatim>\<open>a <= b\<close> on numbers: false as soon as one side is NaN.\<close>

fun js_le :: "jsnum \<Rightarrow> jsnum \<Rightarrow> bool" where
  "js_le NaN b = False"
| "js_le a NaN = False"
| "js_le NegInf b = True"
| "js_le a PosInf = True"
| "js_le (Fin x) (Fin y) = (x \<le> y)"
| "js_le a b = False"

text \<open>\<^verbatim>\<open>a >= b\<close> is \<^verbatim>\<open>b <= a\<close>.\<close>

definition js_ge :: "jsnum \<Rightarrow> jsnum \<Rightarrow> bool" where
  "js_ge a b = js_le b a"

text \<open>\<^verbatim>\<open>a < b\<close> and \<^verbatim>\<open>a > b\<close>.\<close>

fun js_lt :: "jsnum \<Rightarrow> jsnum \<Rightarrow> bool" where
  "js_lt NaN b = False"
| "js_lt a NaN = False"
| "js_lt PosInf b = False"
| "js_lt a NegInf = False"
| "js_lt (Fin x) (Fin y) = (x < y)"
| "js_lt a b = True"

definition js_gt :: "jsnum \<Rightarrow> jsnum \<Rightarrow> bool" where
  "js_gt a b = js_lt b a"

text \<open>
  Rounding to double precision (IEEE 754 binary64, round to nearest, ties to even).

  \<open>binade a\<close> is the exponent \<open>e\<close> with \<open>2\<^sup>e \<le> a < 2\<^sup>e\<^sup>+\<^sup>1\<close> of a positive \<open>a\<close>: the bit
  length of the integer part for \<open>a \<ge> 1\<close>, and the bit length of \<open>\<lceil>1 / a\<rceil> - 1\<close>, negated,
  below 1.
\<close>

definition binade :: "real \<Rightarrow> int" where
  "binade a =
     (if 1 \<le> a then int (floorlog 2 (nat \<lfloor>a\<rfloor>)) - 1
      else - int (floorlog 2 (nat (\<lceil>1 / a\<rceil> - 1))))"

text \<open>The nearest integer, the even one of the two when \<open>r\<close> lies halfway.\<close>

definition round_even :: "real \<Rightarrow> int" where
  "round_even r =
     (let f = \<lfloor>r\<rfloor>; d = r - of_int f
      in if d < 1 / 2 then f else if 1 / 2 < d then f + 1 else if even f then f else f + 1)"

text \<open>
  A positive real rounded to a double. The spacing of the doubles around \<open>a\<close> is
  \<open>2\<^sup>e\<^sup>-\<^sup>5\<^sup>2\<close> for a 53-bit significand, with the exponent held at -1022 for the subnormal
  numbers; a result of \<open>2\<^sup>1\<^sup>0\<^sup>2\<^sup>4\<close> or more is infinity.
\<close>

definition round_mag :: "real \<Rightarrow> jsnum" where
  "round_mag a =
     (let u = 2 powi (max (binade a) (- 1022) - 52);
          y = of_int (round_even (a / u)) * u
      in if 2 ^ 1024 \<le> y then PosInf else Fin y)"

fun js_neg :: "jsnum \<Rightarrow> jsnum" where
  "js_neg NaN = NaN"
| "js_neg NegInf = PosInf"
| "js_neg PosInf = NegInf"
| "js_neg (Fin x) = Fin (- x)"

text \<open>Rounding is symmetric about zero.\<close>

definition to_double :: "real \<Rightarrow> jsnum" where
  "to_double x =
     (if x = 0 then Fin 0 else if 0 < x then round_mag x else js_neg (round_mag (- x)))"

text \<open>
  \<^verbatim>\<open>a - b\<close>: the exact difference of two finite numbers, rounded. NaN is contagious, and so
  is the difference of equal infinities.
\<close>

fun js_sub :: "jsnum \<Rightarrow> jsnum \<Rightarrow> jsnum" where
  "js_sub NaN b = NaN"
| "js_sub a NaN = NaN"
| "js_sub (Fin x) (Fin y) = to_double (x - y)"
| "js_sub (Fin x) PosInf = NegInf"
| "js_sub (Fin x) NegInf = PosInf"
| "js_sub PosInf PosInf = NaN"
| "js_sub PosInf b = PosInf"
| "js_sub NegInf NegInf = NaN"
| "js_sub NegInf b = NegInf"

text \<open>\<^verbatim>\<open>Math.abs\<close>.\<close>

fun js_abs :: "jsnum \<Rightarrow> jsnum" where
  "js_abs NaN = NaN"
| "js_abs NegInf = PosInf"
| "js_abs PosInf = PosInf"
| "js_abs (Fin x) = Fin \<bar>x\<bar>"

text \<open>
  Truthiness, as \<^verbatim>\<open>&&\<close>, \<^verbatim>\<open>||\<close>, \<^verbatim>\<open>!\<close> and \<^verbatim>\<open>if\<close> read a value: \<^verbatim>\<open>undefined\<close>, \<^verbatim>\<open>null\<close>,
  \<^verbatim>\<open>false\<close>, \<^verbatim>\<open>0\<close>, \<^verbatim>\<open>NaN\<close> and the empty string are falsy; every array and object is truthy,
  the empty ones too.
\<close>

fun truthy :: "jsval \<Rightarrow> bool" where
  "truthy Undefined = False"
| "truthy Null = False"
| "truthy (Bool b) = b"
| "truthy (Number n) = (n \<noteq> NaN \<and> n \<noteq> Fin 0)"
| "truthy (String s) = (s \<noteq> [])"
| "truthy (Array xs) = True"
| "truthy (Object fs) = True"

text \<open>
  Reading a named property \<^verbatim>\<open>v.k\<close> of a value that is neither \<^verbatim>\<open>null\<close> nor \<^verbatim>\<open>undefined\<close>
  (on those two the read throws, see \<open>read_member\<close> below). An object answers with its own
  field or \<^verbatim>\<open>undefined\<close>; arrays and strings have a \<^verbatim>\<open>length\<close>; the names read by the client
  (\<^verbatim>\<open>position\<close>, \<^verbatim>\<open>vertices\<close>, \<^verbatim>\<open>xco2\<close>, \<^verbatim>\<open>data\<close>) are \<^verbatim>\<open>undefined\<close> on every other value.
\<close>

fun get_prop :: "jsval \<Rightarrow> string \<Rightarrow> jsval" where
  "get_prop (Object fs) k = (case map_of fs k of Some v \<Rightarrow> v | None \<Rightarrow> Undefined)"
| "get_prop (Array xs) k = (if k = ''length'' then Number (Fin (real (length xs))) else Undefined)"
| "get_prop (String s) k = (if k = ''length'' then Number (Fin (real (length s))) else Undefined)"
| "get_prop v k = Undefined"

datatype js_error = TypeError

text \<open>A property read that may throw: \<^verbatim>\<open>null.k\<close> and \<^verbatim>\<open>undefined.k\<close> raise a TypeError.\<close>

fun read_member :: "jsval \<Rightarrow> string \<Rightarrow> js_error + jsval" where
  "read_member Undefined k = Inl TypeError"
| "read_member Null k = Inl TypeError"
| "read_member v k = Inr (get_prop v k)"

text \<open>\<^verbatim>\<open>Array.isArray(v)\<close> and \<^verbatim>\<open>typeof v === 'number'\<close>.\<close>

fun isArray :: "jsval \<Rightarrow> bool" where
  "isArray (Array xs) = True"
| "isArray v = False"

fun is_number :: "jsval \<Rightarrow> bool" where
  "is_number (Number n) = True"
| "is_number v = False"

text \<open>
  \<^verbatim>\<open>v.length === n\<close> for a value already known to be an array, and \<^verbatim>\<open>v >= c\<close>, \<^verbatim>\<open>v <= c\<close> for a
  value already known to be a number: the guards before them in the source make these the
  only cases that are evaluated.
\<close>

fun length_is :: "jsval \<Rightarrow> nat \<Rightarrow> bool" where
  "length_is (Array xs) n = (length xs = n)"
| "length_is v n = False"

fun num_ge :: "jsval \<Rightarrow> real \<Rightarrow> bool" where
  "num_ge (Number a) c = js_ge a (Fin c)"
| "num_ge v c = False"

fun num_le :: "jsval \<Rightarrow> real \<Rightarrow> bool" where
  "num_le (Number a) c = js_le a (Fin c)"
| "num_le v c = False"

section \<open>The client-side validity filter\<close>

datatype view_mode = PointMode | PolygonMode

text \<open>
  The predicate handed to \<^verbatim>\<open>data.filter\<close> in \<^verbatim>\<open>validData\<close>. The conjuncts stand in the order
  of the source; \<^verbatim>\<open>&&\<close> stops at the first falsy one, so \<^verbatim>\<open>d.position\<close> is read only on a
  truthy \<^verbatim>\<open>d\<close> and never throws. Every view mode other than \<^verbatim>\<open>'point'\<close> takes the second
  branch.
\<close>

definition keep :: "view_mode \<Rightarrow> jsval \<Rightarrow> bool" where
  "keep viewMode d =
     (if viewMode = PointMode then
        truthy d \<and>
        truthy (get_prop d ''position'') \<and>
        isArray (get_prop d ''position'') \<and>
        length_is (get_prop d ''position'') 2 \<and>
        is_number (get_prop d ''xco2'') \<and>
        num_ge (get_prop d ''xco2'') 380 \<and>
        num_le (get_prop d ''xco2'') 420
      else
        truthy d \<and>
        truthy (get_prop d ''position'') \<and>
        isArray (get_prop d ''position'') \<and>
        length_is (get_prop d ''position'') 2 \<and>
        truthy (get_prop d ''vertices'') \<and>
        isArray (get_prop d ''vertices'') \<and>
        length_is (get_prop d ''vertices'') 4 \<and>
        is_number (get_prop d ''xco2'') \<and>
        num_ge (get_prop d ''xco2'') 380 \<and>
        num_le (get_prop d ''xco2'') 420)"

text \<open>
  \<^verbatim>\<open>validData\<close>: a falsy \<^verbatim>\<open>data\<close> or one whose \<^verbatim>\<open>length\<close> is \<^verbatim>\<open>0\<close> gives the empty list; an
  array is filtered; any other value has no \<^verbatim>\<open>filter\<close> method, and calling it throws.
\<close>

fun validData :: "view_mode \<Rightarrow> jsval \<Rightarrow> js_error + jsval list" where
  "validData viewMode (Array xs) = Inr (filter (keep viewMode) xs)"
| "validData viewMode v =
     (if \<not> truthy v \<or> get_prop v ''length'' = Number (Fin 0) then Inr [] else Inl TypeError)"

section \<open>Point radius\<close>

text \<open>\<^verbatim>\<open>getPointRadius\<close>: the radius in metres for a zoom level, read from \<^verbatim>\<open>viewState.zoom\<close>.\<close>

definition getPointRadius :: "jsnum \<Rightarrow> jsnum" where
  "getPointRadius zoom =
     (if js_le zoom (Fin 3) then Fin 100000
      else if js_le zoom (Fin 5) then Fin 75000
      else Fin 50000)"

section \<open>Fetching\<close>

text \<open>
  The viewport comes from the rendering library (\<^verbatim>\<open>deck.getViewports()[0]\<close>): its centre and
  zoom are finite numbers, and \<^verbatim>\<open>getBounds()\<close> is the library's own bounding box.
\<close>

record viewport =
  longitude :: real
  latitude :: real
  zoom :: real
  getBounds :: "real list"

text \<open>What \<^verbatim>\<open>setError\<close> receives: the \<^verbatim>\<open>message\<close> of the error that was caught.\<close>

datatype message = Message string | TypeErrorMessage

text \<open>
  The component state that \<^verbatim>\<open>fetchData\<close> reads and writes. \<open>console_errors\<close> collects the
  first argument of every \<^verbatim>\<open>console.error\<close> call; the \<^verbatim>\<open>console.log\<close> diagnostics change
  neither the state nor the control flow and are left out.
\<close>

record app =
  data :: jsval
  error :: "message option"
  isGlobeMode :: bool
  viewMode :: view_mode
  startDate :: string
  endDate :: string
  console_errors :: "string list"

text \<open>
  The query string appended to \<^verbatim>\<open>http://localhost:8000/data\<close>, kept as its parameters rather
  than as text: \<^verbatim>\<open>bounds\<close>, \<^verbatim>\<open>zoom\<close>, \<^verbatim>\<open>view_mode\<close> and the two optional dates.
\<close>

record query =
  bounds :: "real list"
  q_zoom :: real
  view_mode :: view_mode
  start_date :: "string option"
  end_date :: "string option"

text \<open>The \<^verbatim>\<open>bounds\<close> array: computed from the centre in globe mode, the library's otherwise.\<close>

definition view_bounds :: "bool \<Rightarrow> viewport \<Rightarrow> real list" where
  "view_bounds globe vp =
     (if globe then
        [longitude vp - 90,
         max (- 90) (latitude vp - 45),
         longitude vp + 90,
         min 90 (latitude vp + 45)]
      else getBounds vp)"

text \<open>
  The request: \<open>None\<close> is the bare URL, sent when the deck or its viewport is not there yet.
  A date is appended only when its string is truthy, that is non-empty.
\<close>

definition request_url :: "viewport option \<Rightarrow> app \<Rightarrow> query option" where
  "request_url deck s =
     (case deck of
        None \<Rightarrow> None
      | Some vp \<Rightarrow>
          Some \<lparr> bounds = view_bounds (isGlobeMode s) vp,
                 q_zoom = zoom vp,
                 view_mode = viewMode s,
                 start_date = (if startDate s \<noteq> [] then Some (startDate s) else None),
                 end_date = (if endDate s \<noteq> [] then Some (endDate s) else None) \<rparr>)"

text \<open>
  What \<^verbatim>\<open>await fetch(url)\<close> followed by \<^verbatim>\<open>await response.json()\<close> comes to: a rejection
  with an error message (the network failed, or the body was not JSON), or the parsed value.
\<close>

datatype response = Rejected string | Json jsval

text \<open>The \<^verbatim>\<open>catch\<close> block: log, then \<^verbatim>\<open>setError(error.message)\<close>.\<close>

definition caught :: "message \<Rightarrow> app \<Rightarrow> app" where
  "caught m s =
     s\<lparr> console_errors := console_errors s @ [''Error fetching data:''], error := Some m \<rparr>"

text \<open>
  \<^verbatim>\<open>fetchData\<close>, with the network as a function from the request to its outcome. Reading
  \<^verbatim>\<open>result.data\<close> throws inside the \<^verbatim>\<open>try\<close> when the body is \<^verbatim>\<open>null\<close>; a falsy \<^verbatim>\<open>result.data\<close>
  is logged and the function returns; otherwise \<^verbatim>\<open>setData(result.data)\<close>.
\<close>

definition fetchData :: "viewport option \<Rightarrow> (query option \<Rightarrow> response) \<Rightarrow> app \<Rightarrow> app" where
  "fetchData deck fetch s =
     (case fetch (request_url deck s) of
        Rejected m \<Rightarrow> caught (Message m) s
      | Json result \<Rightarrow>
          (case read_member result ''data'' of
             Inl e \<Rightarrow> caught TypeErrorMessage s
           | Inr d \<Rightarrow>
               if \<not> truthy d
               then s\<lparr> console_errors := console_errors s @ [''No data property in response:''] \<rparr>
               else s\<lparr> data := d \<rparr>))"

section \<open>Scheduling of fetches\<close>

text \<open>
  Two places call \<^verbatim>\<open>fetchData\<close>. The effect with dependencies \<^verbatim>\<open>[fetchData, landCoverVisible]\<close>
  starts a 500 ms timeout and its cleanup clears the one before; \<^verbatim>\<open>fetchData\<close> itself changes
  identity with \<^verbatim>\<open>isGlobeMode\<close>, \<^verbatim>\<open>viewMode\<close>, \<^verbatim>\<open>startDate\<close> and \<^verbatim>\<open>endDate\<close>, not with the view
  state. \<^verbatim>\<open>handleViewStateChange\<close> calls \<^verbatim>\<open>fetchData()\<close> at once when the deck is mounted.

  Time is in milliseconds. \<open>timer\<close> is the instant at which the live timeout fires,
  \<open>fetches\<close> the instants at which \<^verbatim>\<open>fetchData\<close> was called.
\<close>

record sched =
  timer :: "nat option"
  fetches :: "nat list"

datatype event = DepsChange | ViewStateChange bool

text \<open>A timeout that is due by \<open>now\<close> fires, at its own instant.\<close>

definition fire :: "nat \<Rightarrow> sched \<Rightarrow> sched" where
  "fire now s =
     (case timer s of
        None \<Rightarrow> s
      | Some t \<Rightarrow> if t \<le> now then s\<lparr> timer := None, fetches := fetches s @ [t] \<rparr> else s)"

text \<open>
  A change of a dependency re-runs the effect: \<^verbatim>\<open>clearTimeout\<close> on the old timer, a new one
  500 ms ahead. A view-state change carries whether \<^verbatim>\<open>deckRef.current?.deck\<close> is set.
\<close>

fun handle :: "nat \<Rightarrow> event \<Rightarrow> sched \<Rightarrow> sched" where
  "handle now DepsChange s = s\<lparr> timer := Some (now + 500) \<rparr>"
| "handle now (ViewStateChange mounted) s =
     (if mounted then s\<lparr> fetches := fetches s @ [now] \<rparr> else s)"

text \<open>Events in the order of their time stamps; a due timeout fires before the next event.\<close>

fun run :: "(nat \<times> event) list \<Rightarrow> sched \<Rightarrow> sched" where
  "run [] s = s"
| "run ((now, e) # es) s = run es (handle now e (fire now s))"

text \<open>After the last event nothing clears the live timeout, so it fires.\<close>

definition settle :: "sched \<Rightarrow> sched" where
  "settle s =
     (case timer s of
        None \<Rightarrow> s
      | Some t \<Rightarrow> s\<lparr> timer := None, fetches := fetches s @ [t] \<rparr>)"

section \<open>Trajectories\<close>

text \<open>
  A point as \<^verbatim>\<open>createTrajectories\<close> reads it: an optional numeric \<^verbatim>\<open>time\<close> and the
  \<^verbatim>\<open>position\<close> array.
\<close>

record point =
  time :: "jsnum option"
  position :: "jsnum list"

text \<open>
  \<^verbatim>\<open>p.position[i]\<close> as an operand of \<^verbatim>\<open>-\<close>: an index past the end reads \<^verbatim>\<open>undefined\<close>, which
  the subtraction turns into NaN.
\<close>

definition coord :: "point \<Rightarrow> nat \<Rightarrow> jsnum" where
  "coord p i = (if i < length (position p) then position p ! i else NaN)"

text \<open>\<^verbatim>\<open>a.time || a.position[0]\<close>: the time when it is there and truthy, else the longitude.\<close>

definition sort_key :: "point \<Rightarrow> jsnum" where
  "sort_key a =
     (case time a of
        Some t \<Rightarrow> if t \<noteq> NaN \<and> t \<noteq> Fin 0 then t else coord a 0
      | None \<Rightarrow> coord a 0)"

definition compare_points :: "point \<Rightarrow> point \<Rightarrow> jsnum" where
  "compare_points a b = js_sub (sort_key a) (sort_key b)"

text \<open>
  \<^verbatim>\<open>Array.prototype.sort\<close> with that comparator, as a stable insertion sort: \<open>a\<close> moves
  behind \<open>b\<close> only when the comparator is positive. With keys that the comparator orders
  consistently this is the order the language prescribes; with NaN keys the language leaves
  the order open, and nothing below depends on it.
\<close>

fun insert_sorted :: "point \<Rightarrow> point list \<Rightarrow> point list" where
  "insert_sorted a [] = [a]"
| "insert_sorted a (b # bs) =
     (if js_gt (compare_points a b) (Fin 0) then b # insert_sorted a bs else a # b # bs)"

definition js_sort :: "point list \<Rightarrow> point list" where
  "js_sort xs = foldr insert_sorted xs []"

text \<open>
  The test that ends the current line after \<open>point\<close>: there is no next point, or the next
  one is more than 1 away in longitude or in latitude.
\<close>

definition far_apart :: "point \<Rightarrow> point \<Rightarrow> bool" where
  "far_apart nextPoint point =
     (js_gt (js_abs (js_sub (coord nextPoint 0) (coord point 0))) (Fin 1) \<or>
      js_gt (js_abs (js_sub (coord nextPoint 1) (coord point 1))) (Fin 1))"

definition line_ends :: "point \<Rightarrow> point list \<Rightarrow> bool" where
  "line_ends point rest =
     (case rest of [] \<Rightarrow> True | nextPoint # _ \<Rightarrow> far_apart nextPoint point)"

text \<open>
  The \<^verbatim>\<open>for\<close> loop over \<^verbatim>\<open>sortedPoints\<close>, with \<^verbatim>\<open>currentLine\<close> and \<^verbatim>\<open>trajectories\<close> as
  accumulators: push the point, and at the end of a line keep the line if it has more than
  one point, then start an empty one.
\<close>

fun traj_loop :: "point list \<Rightarrow> point list \<Rightarrow> point list list \<Rightarrow> point list list" where
  "traj_loop [] currentLine trajectories = trajectories"
| "traj_loop (point # rest) currentLine trajectories =
     (let line = currentLine @ [point] in
      if line_ends point rest
      then traj_loop rest [] (if length line > 1 then trajectories @ [line] else trajectories)
      else traj_loop rest line trajectories)"

text \<open>
  Arrays are mutable and passed by reference, so the store is explicit: a heap of arrays
  addressed by index. \<^verbatim>\<open>[...points]\<close> allocates a fresh array holding the same elements,
  \<^verbatim>\<open>.sort\<close> sorts that array in place, and the loop reads it. Spreading a value that is not
  there throws.
\<close>

type_synonym heap = "point list list"

definition createTrajectories :: "heap \<Rightarrow> nat \<Rightarrow> js_error + (heap \<times> point list list)" where
  "createTrajectories h points =
     (if points < length h then
        let sortedPoints = length h;
            h1 = h @ [h ! points];
            h2 = h1[sortedPoints := js_sort (h1 ! sortedPoints)]
        in Inr (h2, traj_loop (h2 ! sortedPoints) [] [])
      else Inl TypeError)"

section \<open>Vocabulary of the properties\<close>

text \<open>
  A coordinate is a pair of finite numbers. A closed ring, in the words of the specification,
  is a list of coordinates that returns to its first vertex; the weaker reading, in which the
  renderer closes the ring itself, still needs every vertex to be a coordinate.
\<close>

fun is_coordinate :: "jsval \<Rightarrow> bool" where
  "is_coordinate (Array [Number (Fin x), Number (Fin y)]) = True"
| "is_coordinate v = False"

definition closed_ring :: "jsval list \<Rightarrow> bool" where
  "closed_ring vs = (list_all is_coordinate vs \<and> vs \<noteq> [] \<and> hd vs = last vs)"


text \<open>
  A numeric two-element position, and two such positions that differ by at most 1 in
  longitude and in latitude.
\<close>

fun numeric_pair :: "jsnum list \<Rightarrow> bool" where
  "numeric_pair [Fin x, Fin y] = True"
| "numeric_pair ps = False"

definition numeric_position :: "point \<Rightarrow> bool" where
  "numeric_position p = numeric_pair (position p)"

fun near_coords :: "jsnum list \<Rightarrow> jsnum list \<Rightarrow> bool" where
  "near_coords [Fin x, Fin y] [Fin x', Fin y'] = (\<bar>x' - x\<bar> \<le> 1 \<and> \<bar>y' - y\<bar> \<le> 1)"
| "near_coords ps qs = False"

definition within_one :: "point \<Rightarrow> point \<Rightarrow> bool" where
  "within_one p q = near_coords (position p) (position q)"

text \<open>
  What the loop itself compares: the differences as the code computes them, rounded, are at
  most 1.
\<close>

definition computed_within_one :: "point \<Rightarrow> point \<Rightarrow> bool" where
  "computed_within_one p q =
     (js_le (js_abs (js_sub (coord q 0) (coord p 0))) (Fin 1) \<and>
      js_le (js_abs (js_sub (coord q 1) (coord p 1))) (Fin 1))"

text \<open>
  Two numeric positions whose exact differences are at most \<open>1 + 2\<^sup>-\<^sup>5\<^sup>3\<close>, the largest
  magnitude that rounds to 1.
\<close>

fun close_coords :: "jsnum list \<Rightarrow> jsnum list \<Rightarrow> bool" where
  "close_coords [Fin x, Fin y] [Fin x', Fin y'] =
     (\<bar>x' - x\<bar> \<le> 1 + 1 / 2 ^ 53 \<and> \<bar>y' - y\<bar> \<le> 1 + 1 / 2 ^ 53)"
| "close_coords ps qs = False"

definition within_rounding :: "point \<Rightarrow> point \<Rightarrow> bool" where
  "within_rounding p q = close_coords (position p) (position q)"

definition linked :: "point \<Rightarrow> point \<Rightarrow> bool" where
  "linked p q = (computed_within_one p q \<and> within_rounding p q)"

definition good_line :: "point list \<Rightarrow> bool" where
  "good_line t = (2 \<le> length t \<and> successively linked t)"

subsection \<open>Sample inputs\<close>

text \<open>A good footprint over (10, 20) with its four corners.\<close>

definition footprint :: jsval where
  "footprint =
     Object [(''sounding_id'', Number (Fin 2020010112000000)),
             (''position'', Array [Number (Fin 10), Number (Fin 20)]),
             (''vertices'', Array [Array [Number (Fin 9), Number (Fin 19)],
                                   Array [Number (Fin 11), Number (Fin 19)],
                                   Array [Number (Fin 11), Number (Fin 21)],
                                   Array [Number (Fin 9), Number (Fin 21)]]),
             (''xco2'', Number (Fin 400)),
             (''quality_flag'', Number (Fin 0))]"


text \<open>A record whose \<^verbatim>\<open>vertices\<close> array holds four numbers instead of four corners.\<close>

definition flat_footprint :: jsval where
  "flat_footprint =
     Object [(''position'', Array [Number (Fin 10), Number (Fin 20)]),
             (''vertices'', Array [Number (Fin 1), Number (Fin 2), Number (Fin 3), Number (Fin 4)]),
             (''xco2'', Number (Fin 400))]"

text \<open>A record with three corners only.\<close>

definition triangle :: jsval where
  "triangle =
     Object [(''position'', Array [Number (Fin 10), Number (Fin 20)]),
             (''vertices'', Array [Array [Number (Fin 9), Number (Fin 19)],
                                   Array [Number (Fin 11), Number (Fin 19)],
                                   Array [Number (Fin 11), Number (Fin 21)]]),
             (''xco2'', Number (Fin 400))]"

text \<open>A client that shows one point, a client in globe mode, and a viewport near the pole.\<close>

definition shown :: app where
  "shown =
     \<lparr> data = Array [Object [(''position'', Array [Number (Fin 10), Number (Fin 20)]),
                            (''xco2'', Number (Fin 400))]],
       error = None, isGlobeMode = False, viewMode = PointMode,
       startDate = [], endDate = [], console_errors = [] \<rparr>"

definition globe :: app where
  "globe =
     \<lparr> data = Array [], error = None, isGlobeMode = True, viewMode = PointMode,
       startDate = [], endDate = [], console_errors = [] \<rparr>"


text \<open>Four points, given out of order: two neighbours and two isolated ones.\<close>

definition track :: "point list" where
  "track = [\<lparr> time = None, position = [Fin 12, Fin 40] \<rparr>,
            \<lparr> time = None, position = [Fin 10, Fin 40] \<rparr>,
            \<lparr> time = None, position = [Fin 10.5, Fin 40.5] \<rparr>,
            \<lparr> time = None, position = [Fin 30, Fin 0] \<rparr>]"

text \<open>
  A longitude just west of the meridian: \<open>-tiny\<close> and 1 are both doubles and lie a little
  more than 1 apart.
\<close>

definition tiny :: real where
  "tiny = 1 / 2 ^ 60"

section \<open>The filter: value range, vertices, quality flag\<close>

lemma keep_xco2:
  assumes "keep mode d"
  shows "\<exists>v. get_prop d ''xco2'' = Number (Fin v) \<and> 380 \<le> v \<and> v \<le> 420"
proof -
  from assms have n: "is_number (get_prop d ''xco2'')"
    and ge: "num_ge (get_prop d ''xco2'') 380" and le: "num_le (get_prop d ''xco2'') 420"
    by (auto simp: keep_def split: if_splits)
  from n obtain a where a: "get_prop d ''xco2'' = Number a"
    by (cases "get_prop d ''xco2''") auto
  from ge le a show ?thesis
    by (cases a) (auto simp: js_ge_def)
qed

lemma validData_Inr:
  assumes "validData mode dat = Inr out" and "d \<in> set out"
  shows "keep mode d"
  using assms by (cases dat) (auto split: if_splits)

text \<open>
  Claim C1. Whatever \<^verbatim>\<open>data\<close> holds and whichever the view mode, every feature that
  \<^verbatim>\<open>validData\<close> lets through has a numeric \<^verbatim>\<open>xco2\<close> with 380 \<open>\<le>\<close> xco2 \<open>\<le>\<close> 420: NaN, the
  infinities and every value outside the range are filtered out.
\<close>

theorem validData_xco2_in_range:
  assumes "validData mode dat = Inr out" and "d \<in> set out"
  shows "\<exists>v. get_prop d ''xco2'' = Number (Fin v) \<and> 380 \<le> v \<and> v \<le> 420"
  using validData_Inr [OF assms] by (rule keep_xco2)

theorem validData_xco2_in_range_witness:
  "validData PolygonMode (Array [footprint, Null, Object [(''xco2'', Number NaN)]]) = Inr [footprint] \<and>
   footprint \<in> set [footprint] \<and>
   (\<exists>v. get_prop footprint ''xco2'' = Number (Fin v) \<and> 380 \<le> v \<and> v \<le> 420)"
proof -
  have a: "validData PolygonMode (Array [footprint, Null, Object [(''xco2'', Number NaN)]])
             = Inr [footprint]"
    by (simp add: footprint_def keep_def js_ge_def)
  have b: "footprint \<in> set [footprint]" by simp
  from a b validData_xco2_in_range [OF a b] show ?thesis by blast
qed

text \<open>
  Claim C2, as stated, fails: the filter looks at the length of \<^verbatim>\<open>vertices\<close> and at nothing
  else, so a record with four numbers for vertices passes in polygon mode although its
  vertices are no coordinates, let alone a closed ring.
\<close>

theorem validData_closed_ring_counterexample:
  "validData PolygonMode (Array [flat_footprint]) = Inr [flat_footprint] \<and>
   get_prop flat_footprint ''vertices''
     = Array [Number (Fin 1), Number (Fin 2), Number (Fin 3), Number (Fin 4)] \<and>
   \<not> list_all is_coordinate [Number (Fin 1), Number (Fin 2), Number (Fin 3), Number (Fin 4)] \<and>
   \<not> closed_ring [Number (Fin 1), Number (Fin 2), Number (Fin 3), Number (Fin 4)]"
  by (simp add: flat_footprint_def keep_def js_ge_def closed_ring_def)

text \<open>
  Claim C2, amended. Every feature in the polygon-mode output has a \<^verbatim>\<open>vertices\<close> array of
  exactly four elements.
\<close>

theorem validData_polygon_four_vertices:
  assumes "validData PolygonMode dat = Inr out" and "d \<in> set out"
  shows "\<exists>vs. get_prop d ''vertices'' = Array vs \<and> length vs = 4"
proof -
  from validData_Inr [OF assms] have "length_is (get_prop d ''vertices'') 4"
    by (simp add: keep_def)
  then show ?thesis by (cases "get_prop d ''vertices''") auto
qed

theorem validData_polygon_four_vertices_witness:
  "validData PolygonMode (Array [triangle, footprint]) = Inr [footprint] \<and>
   footprint \<in> set [footprint] \<and>
   (\<exists>vs. get_prop footprint ''vertices'' = Array vs \<and> length vs = 4)"
proof -
  have a: "validData PolygonMode (Array [triangle, footprint]) = Inr [footprint]"
    by (simp add: triangle_def footprint_def keep_def js_ge_def)
  have b: "footprint \<in> set [footprint]" by simp
  from a b validData_polygon_four_vertices [OF a b] show ?thesis by blast
qed





text \<open>
  Claim C4. A record with a two-element position and an \<^verbatim>\<open>xco2\<close> in [380, 420] whose
  \<^verbatim>\<open>vertices\<close> array has fewer than four elements is in the point-mode output and not in the
  polygon-mode output.
\<close>

theorem fewer_vertices_point_only:
  assumes "get_prop d ''position'' = Array [a, b]"
    and "get_prop d ''xco2'' = Number (Fin v)" and "380 \<le> v" and "v \<le> 420"
    and "get_prop d ''vertices'' = Array vs" and "length vs < 4"
    and "d \<in> set xs"
  shows "\<exists>pts polys. validData PointMode (Array xs) = Inr pts \<and>
           validData PolygonMode (Array xs) = Inr polys \<and> d \<in> set pts \<and> d \<notin> set polys"
proof -
  from assms(1) have "truthy d" by (cases d) (auto split: if_splits)
  with assms have "keep PointMode d" and "\<not> keep PolygonMode d"
    by (simp_all add: keep_def js_ge_def)
  with assms(7) show ?thesis by simp
qed

theorem fewer_vertices_point_only_witness:
  "validData PointMode (Array [footprint, triangle]) = Inr [footprint, triangle] \<and>
   validData PolygonMode (Array [footprint, triangle]) = Inr [footprint] \<and>
   triangle \<noteq> footprint \<and>
   (\<exists>pts polys. validData PointMode (Array [footprint, triangle]) = Inr pts \<and>
      validData PolygonMode (Array [footprint, triangle]) = Inr polys \<and>
      triangle \<in> set pts \<and> triangle \<notin> set polys)"
proof -
  have p: "get_prop triangle ''position'' = Array [Number (Fin 10), Number (Fin 20)]"
    and x: "get_prop triangle ''xco2'' = Number (Fin 400)"
    and v: "get_prop triangle ''vertices'' =
              Array [Array [Number (Fin 9), Number (Fin 19)],
                     Array [Number (Fin 11), Number (Fin 19)],
                     Array [Number (Fin 11), Number (Fin 21)]]"
    by (simp_all add: triangle_def)
  have n: "length [Array [Number (Fin 9), Number (Fin 19)],
                   Array [Number (Fin 11), Number (Fin 19)],
                   Array [Number (Fin 11), Number (Fin 21)]] < 4"
    and lo: "(380::real) \<le> 400" and hi: "(400::real) \<le> 420"
    and m: "triangle \<in> set [footprint, triangle]"
    by simp_all
  have "validData PointMode (Array [footprint, triangle]) = Inr [footprint, triangle]"
    and "validData PolygonMode (Array [footprint, triangle]) = Inr [footprint]"
    and "triangle \<noteq> footprint"
    by (simp_all add: footprint_def triangle_def keep_def js_ge_def)
  with fewer_vertices_point_only [OF p x lo hi v n m] show ?thesis by blast
qed

section \<open>Point radius\<close>

text \<open>
  Claim C5. The radius is 100000 m for a zoom of at most 3, 75000 m for a zoom from 4 to 5 and
  50000 m for a zoom of at least 6.
\<close>

theorem getPointRadius_buckets:
  "(js_le z (Fin 3) \<longrightarrow> getPointRadius z = Fin 100000) \<and>
   (js_ge z (Fin 4) \<and> js_le z (Fin 5) \<longrightarrow> getPointRadius z = Fin 75000) \<and>
   (js_ge z (Fin 6) \<longrightarrow> getPointRadius z = Fin 50000)"
  by (cases z) (auto simp: getPointRadius_def js_ge_def)

theorem getPointRadius_buckets_witness:
  "js_le (Fin 2) (Fin 3) \<and> getPointRadius (Fin 2) = Fin 100000 \<and>
   js_ge (Fin 4.5) (Fin 4) \<and> js_le (Fin 4.5) (Fin 5) \<and> getPointRadius (Fin 4.5) = Fin 75000 \<and>
   js_ge (Fin 6) (Fin 6) \<and> getPointRadius (Fin 6) = Fin 50000"
  using getPointRadius_buckets [of "Fin 2"] getPointRadius_buckets [of "Fin 4.5"]
    getPointRadius_buckets [of "Fin 6"]
  by (simp add: js_ge_def)

text \<open>Between the buckets the code decides as follows.\<close>

lemma getPointRadius_between:
  "3 < z \<Longrightarrow> z \<le> 5 \<Longrightarrow> getPointRadius (Fin z) = Fin 75000"
  "5 < z \<Longrightarrow> getPointRadius (Fin z) = Fin 50000"
  by (simp_all add: getPointRadius_def)

section \<open>Fetching: missing data, network errors, globe bounds\<close>

text \<open>
  Claim C6, as stated, fails in its second half: when the response has no \<^verbatim>\<open>data\<close> key the
  function logs and returns before \<^verbatim>\<open>setData\<close>, so the dataset on screen is the one that was
  there, not an empty one.
\<close>

theorem fetchData_missing_data_counterexample:
  "data (fetchData None (\<lambda>url. Json (Object [(''detail'', String ''Not Found'')])) shown)
     = Array [Object [(''position'', Array [Number (Fin 10), Number (Fin 20)]),
                      (''xco2'', Number (Fin 400))]] \<and>
   data (fetchData None (\<lambda>url. Json (Object [(''detail'', String ''Not Found'')])) shown)
     \<noteq> Array [] \<and>
   validData PointMode
     (data (fetchData None (\<lambda>url. Json (Object [(''detail'', String ''Not Found'')])) shown))
     \<noteq> Inr []"
  by (simp add: fetchData_def shown_def keep_def js_ge_def)

text \<open>
  Claim C6, amended. When the response is a JSON object without a \<^verbatim>\<open>data\<close> key, nothing is
  raised: the function logs the response and returns, and both the displayed dataset and the
  error indicator stay as they were.
\<close>

theorem fetchData_missing_data_keeps_state:
  assumes "fetch (request_url deck s) = Json (Object fs)" and "map_of fs ''data'' = None"
  shows "data (fetchData deck fetch s) = data s \<and>
         error (fetchData deck fetch s) = error s \<and>
         console_errors (fetchData deck fetch s) =
           console_errors s @ [''No data property in response:'']"
  using assms by (simp add: fetchData_def)

theorem fetchData_missing_data_keeps_state_witness:
  "data (fetchData None (\<lambda>url. Json (Object [(''detail'', String ''Not Found'')])) shown)
     = data shown \<and>
   error (fetchData None (\<lambda>url. Json (Object [(''detail'', String ''Not Found'')])) shown)
     = None \<and>
   console_errors (fetchData None (\<lambda>url. Json (Object [(''detail'', String ''Not Found'')])) shown)
     = [''No data property in response:'']"
  using fetchData_missing_data_keeps_state
    [of "\<lambda>url. Json (Object [(''detail'', String ''Not Found'')])" None shown
        "[(''detail'', String ''Not Found'')]"]
  by (simp add: shown_def)

text \<open>
  Claim C7. When the fetch is rejected, the error is caught and logged, the error indicator
  is set to its message, and the displayed data is the data from before.
\<close>

theorem fetchData_network_error:
  assumes "fetch (request_url deck s) = Rejected m"
  shows "data (fetchData deck fetch s) = data s \<and>
         error (fetchData deck fetch s) = Some (Message m) \<and>
         console_errors (fetchData deck fetch s) = console_errors s @ [''Error fetching data:'']"
  using assms by (simp add: fetchData_def caught_def)

theorem fetchData_network_error_witness:
  "data (fetchData None (\<lambda>url. Rejected ''Failed to fetch'') shown) = data shown \<and>
   error (fetchData None (\<lambda>url. Rejected ''Failed to fetch'') shown)
     = Some (Message ''Failed to fetch'') \<and>
   console_errors (fetchData None (\<lambda>url. Rejected ''Failed to fetch'') shown)
     = [''Error fetching data:'']"
  using fetchData_network_error
    [of "\<lambda>url. Rejected ''Failed to fetch''" None shown "''Failed to fetch''"]
  by (simp add: shown_def)



section \<open>Scheduling of fetches\<close>

text \<open>
  Changes of the effect's dependencies that follow each other within 500 ms restart the
  timeout and issue nothing; one fetch follows, 500 ms after the last change.
\<close>

lemma run_deps_changes:
  assumes "\<forall>e \<in> set es. snd e = DepsChange"
    and "successively (\<lambda>a b. fst b < fst a + 500) es"
    and "es \<noteq> []"
    and "\<forall>d. timer s = Some d \<longrightarrow> fst (hd es) < d"
  shows "run es s = s\<lparr> timer := Some (fst (last es) + 500) \<rparr>"
  using assms
proof (induction es arbitrary: s)
  case Nil
  then show ?case by simp
next
  case (Cons a es)
  obtain now e where a: "a = (now, e)" by (cases a)
  with Cons.prems(1) have e: "e = DepsChange" by simp
  have idle: "fire now s = s"
    using Cons.prems(4) a by (auto simp: fire_def split: option.splits)
  show ?case
  proof (cases "es = []")
    case True
    with a e idle show ?thesis by simp
  next
    case False
    let ?s = "s\<lparr> timer := Some (now + 500) \<rparr>"
    from False Cons.prems(2) a
    have "fst (hd es) < now + 500" and "successively (\<lambda>a b. fst b < fst a + 500) es"
      by (simp_all add: successively_Cons)
    with Cons.prems(1) False
    have "run es ?s = ?s\<lparr> timer := Some (fst (last es) + 500) \<rparr>"
      by (intro Cons.IH) simp_all
    with False a e idle show ?thesis by simp
  qed
qed

lemma deps_changes_one_fetch:
  assumes "\<forall>e \<in> set es. snd e = DepsChange"
    and "successively (\<lambda>a b. fst b < fst a + 500) es"
    and "es \<noteq> []"
  shows "fetches (settle (run es \<lparr> timer = None, fetches = [] \<rparr>)) = [fst (last es) + 500]"
  using run_deps_changes [OF assms, of "\<lparr> timer = None, fetches = [] \<rparr>"]
  by (simp add: settle_def)

text \<open>
  Claim C8 asks the same of viewport changes. The code does not do it:
  \<^verbatim>\<open>handleViewStateChange\<close> calls \<^verbatim>\<open>fetchData()\<close> itself, so three view-state changes 100 ms
  apart, with the deck mounted, issue three fetches.
\<close>

theorem view_changes_not_debounced:
  "fetches (settle (run [(1000, ViewStateChange True), (1100, ViewStateChange True),
                         (1200, ViewStateChange True)] \<lparr> timer = None, fetches = [] \<rparr>))
     = [1000, 1100, 1200]"
  by (simp add: fire_def settle_def)

section \<open>Rounding\<close>

text \<open>The exponent found by \<open>binade\<close> is the right one.\<close>

lemma binade_ge1:
  assumes "1 \<le> a"
  shows "0 \<le> binade a" and "2 powi binade a \<le> a" and "a < 2 powi (binade a + 1)"
proof -
  let ?n = "nat \<lfloor>a\<rfloor>"
  let ?k = "floorlog 2 ?n"
  from assms have n: "0 < ?n" by simp
  from floorlog_bounds [OF n, of 2]
  have lo: "2 ^ (?k - 1) \<le> ?n" and hi: "?n < 2 ^ ?k" by simp_all
  from n have k: "1 \<le> ?k" by (simp add: floorlog_def)
  have b: "binade a = int (?k - 1)" using assms k by (simp add: binade_def)
  show "0 \<le> binade a" by (simp add: b)
  have "real (2 ^ (?k - 1)) \<le> real ?n" using lo by (rule of_nat_mono)
  also have "real ?n = of_int \<lfloor>a\<rfloor>" using assms by simp
  also have "\<dots> \<le> a" by simp
  finally show "2 powi binade a \<le> a" by (simp add: b)
  have "a < of_int \<lfloor>a\<rfloor> + 1" by linarith
  also have "of_int \<lfloor>a\<rfloor> + 1 = real (?n + 1)" using assms by simp
  also have "\<dots> \<le> real (2 ^ ?k)"
  proof (rule of_nat_mono)
    from hi show "?n + 1 \<le> 2 ^ ?k" by linarith
  qed
  finally have "a < 2 ^ ?k" by simp
  moreover have "binade a + 1 = int ?k" using b k by simp
  ultimately show "a < 2 powi (binade a + 1)" by simp
qed

lemma binade_lt1:
  assumes "0 < a" and "a < 1"
  shows "2 powi binade a \<le> a" and "a < 2 powi (binade a + 1)"
proof -
  let ?m = "nat (\<lceil>1 / a\<rceil> - 1)"
  let ?k = "floorlog 2 ?m"
  from assms have y: "1 < 1 / a" by simp
  then have c: "2 \<le> \<lceil>1 / a\<rceil>" by linarith
  then have m: "0 < ?m" by simp
  from floorlog_bounds [OF m, of 2]
  have lo: "2 ^ (?k - 1) \<le> ?m" and hi: "?m < 2 ^ ?k" by simp_all
  from m have k: "1 \<le> ?k" by (simp add: floorlog_def)
  have b: "binade a = - int ?k" using assms by (simp add: binade_def)
  have "0 \<le> \<lceil>1 / a\<rceil> - 1" using c by linarith
  then have "real ?m = of_int (\<lceil>1 / a\<rceil> - 1)" by (rule of_nat_nat)
  then have mr: "real ?m = of_int \<lceil>1 / a\<rceil> - 1" by (simp only: of_int_diff of_int_1)
  have "1 / a \<le> of_int \<lceil>1 / a\<rceil>" by simp
  also have "\<dots> = real (?m + 1)" using mr by simp
  also have "\<dots> \<le> real (2 ^ ?k)"
  proof (rule of_nat_mono)
    from hi show "?m + 1 \<le> 2 ^ ?k" by linarith
  qed
  finally have "1 / a \<le> 2 ^ ?k" by simp
  with assms(1) have "1 / 2 ^ ?k \<le> a"
    by (simp add: field_simps)
  then show "2 powi binade a \<le> a"
    by (simp add: b power_int_minus field_simps)
  have "real (2 ^ (?k - 1)) \<le> real ?m" using lo by (rule of_nat_mono)
  also have "real ?m < 1 / a" using mr by linarith
  finally have "2 ^ (?k - 1) < 1 / a" by simp
  with assms(1) have "a < 1 / 2 ^ (?k - 1)"
    by (simp add: field_simps)
  moreover have "binade a + 1 = - int (?k - 1)" using b k by simp
  ultimately show "a < 2 powi (binade a + 1)"
    by (simp add: power_int_minus field_simps)
qed

lemma binade_bounds:
  assumes "0 < a"
  shows "2 powi binade a \<le> a \<and> a < 2 powi (binade a + 1)"
  using assms binade_ge1 [of a] binade_lt1 [of a] by (cases "1 \<le> a") simp_all

lemma binade_eqI:
  assumes "2 powi e \<le> a" and "a < 2 powi (e + 1)"
  shows "binade a = e"
proof -
  have pos: "0 < a" using assms(1) zero_less_power_int [of "2::real" e] by linarith
  from binade_bounds [OF pos]
  have lo: "2 powi binade a \<le> a" and hi: "a < 2 powi (binade a + 1)" by simp_all
  have "\<not> binade a + 1 \<le> e"
  proof
    assume "binade a + 1 \<le> e"
    then have "(2::real) powi (binade a + 1) \<le> 2 powi e"
      by (intro power_int_increasing) simp_all
    with hi assms(1) show False by linarith
  qed
  moreover have "\<not> e + 1 \<le> binade a"
  proof
    assume "e + 1 \<le> binade a"
    then have "(2::real) powi (e + 1) \<le> 2 powi binade a"
      by (intro power_int_increasing) simp_all
    with lo assms(2) show False by linarith
  qed
  ultimately show ?thesis by linarith
qed

lemma round_even_ge_floor: "\<lfloor>r\<rfloor> \<le> round_even r"
  by (simp add: round_even_def Let_def)

lemma round_even_up: "1 / 2 < r - of_int \<lfloor>r\<rfloor> \<Longrightarrow> round_even r = \<lfloor>r\<rfloor> + 1"
  by (simp add: round_even_def Let_def)

lemma round_even_down: "r - of_int \<lfloor>r\<rfloor> < 1 / 2 \<Longrightarrow> round_even r = \<lfloor>r\<rfloor>"
  by (simp add: round_even_def Let_def)

lemma round_even_near: "\<bar>of_int (round_even r) - r\<bar> \<le> 1 / 2"
proof -
  have "of_int \<lfloor>r\<rfloor> \<le> r" and "r < of_int \<lfloor>r\<rfloor> + 1" by linarith+
  then show ?thesis by (auto simp: round_even_def Let_def)
qed

text \<open>A finite result lies within half a spacing of the exact value.\<close>

lemma round_mag_near:
  assumes "round_mag a = Fin y"
  shows "\<bar>y - a\<bar> \<le> 2 powi (max (binade a) (- 1022) - 52) / 2"
proof -
  define u where "u = (2::real) powi (max (binade a) (- 1022) - 52)"
  define k where "k = real_of_int (round_even (a / u))"
  have upos: "0 < u" by (simp add: u_def)
  from assms have y: "y = k * u"
    by (simp add: round_mag_def Let_def k_def u_def split: if_splits)
  have "y - a = (k - a / u) * u"
    using upos by (simp add: y field_simps)
  then have "\<bar>y - a\<bar> = \<bar>k - a / u\<bar> * u"
    using upos by (simp add: abs_mult)
  also have "\<dots> \<le> 1 / 2 * u"
    using round_even_near [of "a / u"] upos unfolding k_def by (intro mult_right_mono) simp_all
  finally show ?thesis by (simp add: u_def)
qed

text \<open>A normal number whose scaled value lies less than half a unit above an integer.\<close>

lemma round_mag_down:
  assumes "2 powi e \<le> a" and "a < 2 powi (e + 1)" and "- 1022 \<le> e"
    and "\<lfloor>a / 2 powi (e - 52)\<rfloor> = f"
    and "a / 2 powi (e - 52) - of_int f < 1 / 2"
    and "of_int f * 2 powi (e - 52) < (2::real) ^ 1024"
  shows "round_mag a = Fin (of_int f * 2 powi (e - 52))"
proof -
  have e: "max (binade a) (- 1022) = e"
    using binade_eqI [OF assms(1,2)] assms(3) by simp
  have "round_even (a / 2 powi (e - 52)) = f"
    using round_even_down [of "a / 2 powi (e - 52)"] assms(4,5) by simp
  with e assms(6) show ?thesis
    by (simp add: round_mag_def Let_def)
qed

text \<open>Everything beyond \<open>1 + 2\<^sup>-\<^sup>5\<^sup>3\<close> rounds to more than 1.\<close>

lemma round_mag_above_one:
  assumes "1 + 1 / 2 ^ 53 < a"
  shows "js_lt (Fin 1) (round_mag a)"
proof -
  let ?e = "binade a"
  let ?u = "(2::real) powi (?e - 52)"
  let ?y = "of_int (round_even (a / ?u)) * ?u"
  from assms have a1: "1 \<le> a" by simp
  have upos: "0 < ?u" by simp
  from binade_ge1 [OF a1] have e0: "0 \<le> ?e" and lo: "2 powi ?e \<le> a" by simp_all
  have u: "?u = 2 powi ?e / 2 ^ 52"
    by (simp add: power_int_diff)
  have "1 < ?y"
  proof (cases "?e = 0")
    case True
    then have u0: "?u = 1 / 2 ^ 52" using u by simp
    have r: "a / ?u = a * 2 ^ 52" by (simp add: u0)
    have big: "2 ^ 52 + 1 / 2 < a * 2 ^ 52" using assms by (simp add: field_simps)
    have "2 ^ 52 + 1 \<le> round_even (a * 2 ^ 52)"
    proof (cases "2 ^ 52 + 1 \<le> \<lfloor>a * 2 ^ 52\<rfloor>")
      case True
      with round_even_ge_floor [of "a * 2 ^ 52"] show ?thesis by linarith
    next
      case False
      have "(2::int) ^ 52 \<le> \<lfloor>a * 2 ^ 52\<rfloor>" using big by (simp add: le_floor_iff)
      with False have f: "\<lfloor>a * 2 ^ 52\<rfloor> = 2 ^ 52" by linarith
      have "1 / 2 < a * 2 ^ 52 - of_int \<lfloor>a * 2 ^ 52\<rfloor>"
        unfolding f using big by simp
      from round_even_up [OF this] f show ?thesis by simp
    qed
    then have "real_of_int (2 ^ 52 + 1) \<le> of_int (round_even (a * 2 ^ 52))"
      by (rule of_int_le_iff [THEN iffD2])
    then have "(2 ^ 52 + 1) * ?u \<le> ?y" using upos by (simp add: r)
    moreover have "1 < (2 ^ 52 + 1) * ?u" by (simp add: u0)
    ultimately show ?thesis by linarith
  next
    case False
    with e0 have e1: "1 \<le> ?e" by simp
    have two: "(2::real) \<le> 2 powi ?e"
      using power_int_increasing [of 1 ?e "2::real"] e1 by simp
    have "2 ^ 52 = 2 powi ?e / ?u" by (simp add: u)
    also have "\<dots> \<le> a / ?u" using lo upos by (simp add: divide_right_mono)
    finally have "(2::int) ^ 52 \<le> \<lfloor>a / ?u\<rfloor>" by (simp add: le_floor_iff)
    with round_even_ge_floor [of "a / ?u"] have "(2::int) ^ 52 \<le> round_even (a / ?u)"
      by linarith
    then have "real_of_int (2 ^ 52) \<le> of_int (round_even (a / ?u))"
      by (rule of_int_le_iff [THEN iffD2])
    then have "2 ^ 52 * ?u \<le> ?y" using upos by simp
    moreover have "2 ^ 52 * ?u = 2 powi ?e" by (simp add: u)
    ultimately show ?thesis using two by linarith
  qed
  moreover have "max ?e (- 1022) = ?e" using e0 by simp
  ultimately show ?thesis
    by (simp add: round_mag_def Let_def)
qed

lemma round_mag_not_NaN: "round_mag a \<noteq> NaN"
  by (simp add: round_mag_def Let_def)

lemma to_double_not_NaN: "to_double x \<noteq> NaN"
proof -
  have "js_neg v \<noteq> NaN" if "v \<noteq> NaN" for v using that by (cases v) simp_all
  then show ?thesis by (simp add: to_double_def round_mag_not_NaN)
qed

lemma js_abs_neg: "js_abs (js_neg v) = js_abs v"
  by (cases v) simp_all

lemma above_one_abs: "js_lt (Fin 1) v \<Longrightarrow> js_gt (js_abs v) (Fin 1)"
  by (cases v) (simp_all add: js_gt_def)

lemma to_double_far:
  assumes "1 + 1 / 2 ^ 53 < \<bar>d\<bar>"
  shows "js_gt (js_abs (to_double d)) (Fin 1)"
proof (cases "0 < d")
  case True
  with assms have "js_lt (Fin 1) (round_mag d)" by (intro round_mag_above_one) simp
  with True show ?thesis by (simp add: to_double_def above_one_abs)
next
  case False
  with assms have neg: "d < 0" and "1 + 1 / 2 ^ 53 < - d" by simp_all
  then have "js_lt (Fin 1) (round_mag (- d))" by (intro round_mag_above_one)
  with neg show ?thesis by (simp add: to_double_def js_abs_neg above_one_abs)
qed

lemma not_gt_one:
  assumes "\<not> js_gt (js_abs (to_double d)) (Fin 1)"
  shows "js_le (js_abs (to_double d)) (Fin 1)" and "\<bar>d\<bar> \<le> 1 + 1 / 2 ^ 53"
proof -
  from assms to_double_not_NaN [of d] show "js_le (js_abs (to_double d)) (Fin 1)"
    by (cases "to_double d") (simp_all add: js_gt_def not_less)
  show "\<bar>d\<bar> \<le> 1 + 1 / 2 ^ 53"
  proof (rule ccontr)
    assume "\<not> \<bar>d\<bar> \<le> 1 + 1 / 2 ^ 53"
    then have "1 + 1 / 2 ^ 53 < \<bar>d\<bar>" by (simp only: not_le)
    from to_double_far [OF this] assms show False by contradiction
  qed
qed

text \<open>The sample longitudes: both are doubles, and their difference rounds to 1.\<close>

lemma tiny_pos: "0 < tiny"
  by (simp add: tiny_def)

lemma round_mag_grazing: "round_mag (1 + tiny) = Fin 1"
proof -
  have f: "\<lfloor>(1 + tiny) / 2 powi (0 - 52)\<rfloor> = 2 ^ 52"
    by (rule floor_unique) (simp_all add: tiny_def power_int_minus)
  have "round_mag (1 + tiny) = Fin (of_int (2 ^ 52) * 2 powi (0 - 52))"
    by (rule round_mag_down [OF _ _ _ f]) (simp_all add: tiny_def power_int_minus)
  then show ?thesis by (simp add: power_int_minus)
qed

lemma round_mag_tiny: "round_mag tiny = Fin tiny"
proof -
  have f: "\<lfloor>tiny / 2 powi (- 60 - 52)\<rfloor> = 2 ^ 52"
    by (rule floor_unique) (simp_all add: tiny_def power_int_minus)
  have "round_mag tiny = Fin (of_int (2 ^ 52) * 2 powi (- 60 - 52))"
    by (rule round_mag_down [OF _ _ _ f]) (simp_all add: tiny_def power_int_minus)
  then show ?thesis by (simp add: tiny_def power_int_minus)
qed

lemma round_mag_one: "round_mag 1 = Fin 1"
proof -
  have f: "\<lfloor>1 / 2 powi (0 - 52)\<rfloor> = (2::int) ^ 52"
    by (rule floor_unique) (simp_all add: power_int_minus)
  have "round_mag 1 = Fin (of_int (2 ^ 52) * 2 powi (0 - 52))"
    by (rule round_mag_down [OF _ _ _ f]) (simp_all add: power_int_minus)
  then show ?thesis by (simp add: power_int_minus)
qed

lemma grazing_longitudes_are_doubles: "to_double (- tiny) = Fin (- tiny) \<and> to_double 1 = Fin 1"
  using tiny_pos by (simp add: to_double_def round_mag_tiny round_mag_one)

lemma grazing_differences:
  "js_sub (Fin 1) (Fin (- tiny)) = Fin 1"
  "js_sub (Fin (- tiny)) (Fin 1) = Fin (- 1)"
  "js_sub (Fin 0) (Fin 0) = Fin 0"
  using tiny_pos by (simp_all add: to_double_def round_mag_grazing add.commute)

section \<open>Trajectories\<close>

lemma numeric_pairE:
  assumes "numeric_pair ps"
  obtains x y where "ps = [Fin x, Fin y]"
  using assms by (induction ps rule: numeric_pair.induct) simp_all

lemma not_far_apart_linked:
  assumes "numeric_position p" and "numeric_position q" and "\<not> far_apart q p"
  shows "linked p q"
proof -
  from assms(1) obtain x y where p: "position p = [Fin x, Fin y]"
    unfolding numeric_position_def by (rule numeric_pairE)
  from assms(2) obtain x' y' where q: "position q = [Fin x', Fin y']"
    unfolding numeric_position_def by (rule numeric_pairE)
  from assms(3) p q
  have lon: "\<not> js_gt (js_abs (to_double (x' - x))) (Fin 1)"
    and lat: "\<not> js_gt (js_abs (to_double (y' - y))) (Fin 1)"
    by (simp_all add: far_apart_def coord_def)
  from not_gt_one [OF lon] not_gt_one [OF lat] p q show ?thesis
    by (simp add: linked_def computed_within_one_def within_rounding_def coord_def)
qed

lemma successively_nth:
  "successively P xs \<Longrightarrow> Suc i < length xs \<Longrightarrow> P (xs ! i) (xs ! Suc i)"
proof (induction P xs arbitrary: i rule: successively.induct)
  case (3 P x y xs)
  then show ?case by (cases i) simp_all
qed simp_all

text \<open>
  The loop invariant: the current line is a chain of linked points, its last point is
  linked to the next point to come, and every line pushed so far is good.
\<close>

lemma traj_loop_invariant:
  assumes "\<forall>p \<in> set currentLine \<union> set sortedPoints. numeric_position p"
    and "successively linked currentLine"
    and "currentLine \<noteq> [] \<Longrightarrow> sortedPoints \<noteq> [] \<Longrightarrow>
           linked (last currentLine) (hd sortedPoints)"
    and "\<forall>t \<in> set trajectories. good_line t"
  shows "\<forall>t \<in> set (traj_loop sortedPoints currentLine trajectories). good_line t"
  using assms
proof (induction sortedPoints arbitrary: currentLine trajectories)
  case Nil
  then show ?case by simp
next
  case (Cons point rest)
  let ?line = "currentLine @ [point]"
  have line: "successively linked ?line"
    using Cons.prems(2,3) by (cases "currentLine = []") (simp_all add: successively_append_iff)
  have nums: "\<forall>p \<in> set ?line \<union> set rest. numeric_position p"
    using Cons.prems(1) by auto
  show ?case
  proof (cases "line_ends point rest")
    case True
    have "\<forall>t \<in> set (if length ?line > 1 then trajectories @ [?line] else trajectories).
            good_line t"
    proof (cases "length ?line > 1")
      case True
      then have "good_line ?line"
        using line by (cases currentLine) (simp_all add: good_line_def)
      with True Cons.prems(4) show ?thesis by simp
    next
      case False
      with Cons.prems(4) show ?thesis by simp
    qed
    moreover have "\<forall>p \<in> set [] \<union> set rest. numeric_position p"
      using Cons.prems(1) by simp
    ultimately have "\<forall>t \<in> set (traj_loop rest []
        (if length ?line > 1 then trajectories @ [?line] else trajectories)). good_line t"
      by (intro Cons.IH) simp_all
    with True show ?thesis by (simp add: Let_def)
  next
    case False
    then obtain nextPoint more where rest: "rest = nextPoint # more"
      and close: "\<not> far_apart nextPoint point"
      by (auto simp: line_ends_def split: list.splits)
    have "linked point nextPoint"
      using Cons.prems(1) rest close by (intro not_far_apart_linked) simp_all
    then have "linked (last ?line) (hd rest)"
      by (simp add: rest)
    with nums line Cons.prems(4)
    have "\<forall>t \<in> set (traj_loop rest ?line trajectories). good_line t"
      by (intro Cons.IH) simp_all
    with False show ?thesis by (simp add: Let_def)
  qed
qed

lemma set_insert_sorted: "set (insert_sorted a bs) = insert a (set bs)"
  by (induction bs) auto

lemma set_js_sort: "set (js_sort xs) = set xs"
  by (induction xs) (simp_all add: js_sort_def set_insert_sorted)

lemma createTrajectories_heap:
  assumes "points < length h"
  shows "\<exists>h'. createTrajectories h points = Inr (h', traj_loop (js_sort (h ! points)) [] []) \<and>
              h' ! points = h ! points"
  using assms by (simp add: createTrajectories_def Let_def nth_append)

text \<open>
  The positions have to be numbers for this: a NaN coordinate makes both comparisons false,
  and the loop then keeps two points in one line however far apart they are.
\<close>

lemma createTrajectories_nan_joins:
  "createTrajectories [[\<lparr> time = None, position = [NaN, Fin 0] \<rparr>,
                        \<lparr> time = None, position = [Fin 50, Fin 0] \<rparr>]] 0 =
     Inr ([[\<lparr> time = None, position = [NaN, Fin 0] \<rparr>,
            \<lparr> time = None, position = [Fin 50, Fin 0] \<rparr>],
           [\<lparr> time = None, position = [NaN, Fin 0] \<rparr>,
            \<lparr> time = None, position = [Fin 50, Fin 0] \<rparr>]],
          [[\<lparr> time = None, position = [NaN, Fin 0] \<rparr>,
            \<lparr> time = None, position = [Fin 50, Fin 0] \<rparr>]])"
  by (simp add: createTrajectories_def js_sort_def compare_points_def sort_key_def
        coord_def js_gt_def line_ends_def far_apart_def to_double_def)

text \<open>
  Claim C9, as stated, fails: the loop compares the rounded difference with 1. The
  longitudes \<open>-2\<^sup>-\<^sup>6\<^sup>0\<close> and 1 differ by more than 1, the double nearest to their difference
  is 1, and the two points come back as one trajectory.
\<close>

theorem createTrajectories_rounding_counterexample:
  "createTrajectories
     [[\<lparr> time = None, position = [Fin (- tiny), Fin 0] \<rparr>,
       \<lparr> time = None, position = [Fin 1, Fin 0] \<rparr>]] 0 =
     Inr ([[\<lparr> time = None, position = [Fin (- tiny), Fin 0] \<rparr>,
            \<lparr> time = None, position = [Fin 1, Fin 0] \<rparr>],
           [\<lparr> time = None, position = [Fin (- tiny), Fin 0] \<rparr>,
            \<lparr> time = None, position = [Fin 1, Fin 0] \<rparr>]],
          [[\<lparr> time = None, position = [Fin (- tiny), Fin 0] \<rparr>,
            \<lparr> time = None, position = [Fin 1, Fin 0] \<rparr>]]) \<and>
   \<not> within_one \<lparr> time = None, position = [Fin (- tiny), Fin 0] \<rparr>
                 \<lparr> time = None, position = [Fin 1, Fin 0] \<rparr> \<and>
   \<bar>1 - (- tiny)\<bar> = 1 + 1 / 2 ^ 60 \<and>
   to_double (- tiny) = Fin (- tiny) \<and> to_double 1 = Fin 1"
proof -
  have run: "createTrajectories
     [[\<lparr> time = None, position = [Fin (- tiny), Fin 0] \<rparr>,
       \<lparr> time = None, position = [Fin 1, Fin 0] \<rparr>]] 0 =
     Inr ([[\<lparr> time = None, position = [Fin (- tiny), Fin 0] \<rparr>,
            \<lparr> time = None, position = [Fin 1, Fin 0] \<rparr>],
           [\<lparr> time = None, position = [Fin (- tiny), Fin 0] \<rparr>,
            \<lparr> time = None, position = [Fin 1, Fin 0] \<rparr>]],
          [[\<lparr> time = None, position = [Fin (- tiny), Fin 0] \<rparr>,
            \<lparr> time = None, position = [Fin 1, Fin 0] \<rparr>]])"
    by (simp add: createTrajectories_def js_sort_def compare_points_def sort_key_def
          coord_def js_gt_def line_ends_def far_apart_def grazing_differences
        del: js_sub.simps)
  have apart: "\<not> within_one \<lparr> time = None, position = [Fin (- tiny), Fin 0] \<rparr>
                             \<lparr> time = None, position = [Fin 1, Fin 0] \<rparr>"
    using tiny_pos by (simp add: within_one_def)
  have gap: "\<bar>1 - (- tiny)\<bar> = 1 + 1 / 2 ^ 60"
    by (simp add: tiny_def)
  from run apart gap grazing_longitudes_are_doubles show ?thesis by blast
qed

text \<open>
  Claim C9, amended. For an array of points with numeric two-element positions (two finite
  numbers), \<^verbatim>\<open>createTrajectories\<close> returns; every trajectory it returns has at least two
  points; for two consecutive points of a trajectory the differences in longitude and in
  latitude, as the code computes them in double precision, are at most 1, so that the exact
  differences are at most \<open>1 + 2\<^sup>-\<^sup>5\<^sup>3\<close>; and the array it was given holds afterwards what it
  held before.
\<close>

theorem createTrajectories_lines:
  assumes "points < length h"
    and "\<forall>p \<in> set (h ! points). numeric_position p"
  shows "\<exists>h' ts. createTrajectories h points = Inr (h', ts) \<and>
           h' ! points = h ! points \<and>
           (\<forall>t \<in> set ts. 2 \<le> length t \<and>
              (\<forall>i. Suc i < length t \<longrightarrow>
                 computed_within_one (t ! i) (t ! Suc i) \<and>
                 within_rounding (t ! i) (t ! Suc i)))"
proof -
  from createTrajectories_heap [OF assms(1)] obtain h'
    where run: "createTrajectories h points = Inr (h', traj_loop (js_sort (h ! points)) [] [])"
      and same: "h' ! points = h ! points" by blast
  have "\<forall>t \<in> set (traj_loop (js_sort (h ! points)) [] []). good_line t"
    using assms(2) by (intro traj_loop_invariant) (simp_all add: set_js_sort)
  then have "\<forall>t \<in> set (traj_loop (js_sort (h ! points)) [] []). 2 \<le> length t \<and>
            (\<forall>i. Suc i < length t \<longrightarrow> linked (t ! i) (t ! Suc i))"
    by (auto simp: good_line_def dest: successively_nth)
  with run same show ?thesis unfolding linked_def by blast
qed

theorem createTrajectories_lines_witness:
  "(0::nat) < length [track] \<and>
   list_all numeric_position ([track] ! 0) \<and>
   (\<exists>h' ts. createTrajectories [track] 0 = Inr (h', ts) \<and>
      h' ! 0 = [track] ! 0 \<and>
      (\<forall>t \<in> set ts. 2 \<le> length t \<and>
         (\<forall>i. Suc i < length t \<longrightarrow>
            computed_within_one (t ! i) (t ! Suc i) \<and>
            within_rounding (t ! i) (t ! Suc i))))"
proof -
  have a: "(0::nat) < length [track]" by simp
  have b: "\<forall>p \<in> set ([track] ! 0). numeric_position p"
    by (simp add: track_def numeric_position_def)
  from a b createTrajectories_lines [OF a b] show ?thesis
    unfolding list_all_iff by blast
qed

end
